theory Spec2Isabelle
  imports Main "HOL-Library.Sublist"
begin

section \<open>Data model (models.py)\<close>

text \<open>
  The dataclasses of \<^verbatim>\<open>models.py\<close> as records, field for field. Python's \<^verbatim>\<open>str\<close> is
  \<^typ>\<open>string\<close>, \<^verbatim>\<open>int\<close> is \<^typ>\<open>int\<close>, \<^verbatim>\<open>List[str]\<close> is a list, \<^verbatim>\<open>Optional\<close> is
  \<^typ>\<open>'a option\<close>. A naive \<^verbatim>\<open>datetime\<close> is the number of microseconds since the epoch
  (the resolution of Python's \<^verbatim>\<open>datetime\<close>). Field names are the source's; a name that
  is a keyword of the prover carries a prime (\<^verbatim>\<open>alias'\<close>, \<^verbatim>\<open>values'\<close>, \<^verbatim>\<open>method'\<close>,
  \<^verbatim>\<open>text'\<close>).
\<close>

type_synonym datetime = int

definition timedelta_minutes :: "int \<Rightarrow> int" where
  "timedelta_minutes m = m * 60 * 1000000"

record CreateAlias =
  user_id :: string
  aliases :: "string list"
  hashing :: bool

record Alias =
  user_id :: string
  alias' :: string
  plaintext :: string
  tenant :: string

record 'a ListResponse =
  values' :: "'a list"

record UpdateAppsFeature =
  audit_logging_retention_period :: int

record DeleteCredential =
  credential_id :: string

record CredentialDescriptor =
  type :: string
  id :: string
  transports :: "string list option"

record Credential =
  descriptor :: CredentialDescriptor
  public_key :: string
  user_handle :: string
  signature_counter :: int
  attestation_fmt :: string
  created_at :: datetime
  aa_guid :: string
  last_user_at :: datetime
  rp_id :: string
  origin :: string
  country :: string
  device :: string
  user_id :: string

record RegisterToken =
  user_id :: string
  username :: string
  display_name :: string
  attestation :: string
  authenticator_type :: string
  discoverable :: bool
  user_verification :: string
  aliases :: "string list"
  alias_hashing :: bool
  expires_at :: datetime

record RegisteredToken =
  token :: string

record VerifySignIn =
  token :: string

record VerifiedUser =
  success :: bool
  user_id :: string
  timestamp :: datetime
  rp_id :: string
  origin :: string
  device :: string
  country :: string
  nickname :: string
  credential_id :: string
  expires_at :: datetime
  token_id :: string
  type :: string

record UserSummary =
  user_id :: string
  alias_count :: int
  aliases :: "string list"
  credentials_count :: int
  last_used_at :: datetime

record DeleteUser =
  user_id :: string

subsection \<open>Construction of a RegisterToken\<close>

text \<open>
  The class body of \<^verbatim>\<open>RegisterToken\<close> is executed once, when \<^verbatim>\<open>models.py\<close> is imported.
  The default of \<^verbatim>\<open>expires_at\<close> is the expression
  \<^verbatim>\<open>datetime.utcnow() + timedelta(minutes=2)\<close> of that class body: it is evaluated by the
  import, with the clock of the import, and the dataclass stores the resulting value as
  the parameter's default. \<^verbatim>\<open>aliases\<close> has a \<^verbatim>\<open>default_factory\<close>, which is called by every
  construction. The state the import leaves behind is the record \<open>models_module\<close>.
\<close>

record models_module =
  RegisterToken_expires_at_default :: datetime

definition import_models :: "datetime \<Rightarrow> models_module" where
  "import_models utcnow =
     \<lparr>RegisterToken_expires_at_default = utcnow + timedelta_minutes 2\<rparr>"

text \<open>
  The generated \<^verbatim>\<open>__init__\<close>: three required parameters, seven optional ones
  (\<open>None\<close> is an argument the caller left out). The constructor does not read the clock.
\<close>

definition RegisterToken_init ::
  "models_module \<Rightarrow> string \<Rightarrow> string \<Rightarrow> string \<Rightarrow> string option \<Rightarrow> string option \<Rightarrow>
   bool option \<Rightarrow> string option \<Rightarrow> string list option \<Rightarrow> bool option \<Rightarrow>
   datetime option \<Rightarrow> RegisterToken" where
  "RegisterToken_init m user_id_arg username_arg display_name_arg attestation_arg
     authenticator_type_arg discoverable_arg user_verification_arg aliases_arg
     alias_hashing_arg expires_at_arg =
     \<lparr>RegisterToken.user_id = user_id_arg,
      username = username_arg,
      display_name = display_name_arg,
      attestation = (case attestation_arg of None \<Rightarrow> ''none'' | Some v \<Rightarrow> v),
      authenticator_type =
        (case authenticator_type_arg of None \<Rightarrow> ''any'' | Some v \<Rightarrow> v),
      discoverable = (case discoverable_arg of None \<Rightarrow> True | Some v \<Rightarrow> v),
      user_verification =
        (case user_verification_arg of None \<Rightarrow> ''preferred'' | Some v \<Rightarrow> v),
      aliases = (case aliases_arg of None \<Rightarrow> [] | Some v \<Rightarrow> v),
      alias_hashing = (case alias_hashing_arg of None \<Rightarrow> True | Some v \<Rightarrow> v),
      expires_at =
        (case expires_at_arg of
           None \<Rightarrow> RegisterToken_expires_at_default m
         | Some v \<Rightarrow> v)\<rparr>"

section \<open>Errors and configuration\<close>

text \<open>
  \<^verbatim>\<open>errors.py\<close> and \<^verbatim>\<open>config.py\<close> are not among the sources. The client constructs a
  \<^verbatim>\<open>PasswordlessProblemDetails\<close> with the keywords \<^verbatim>\<open>type\<close>, \<^verbatim>\<open>status\<close>, \<^verbatim>\<open>title\<close>,
  \<^verbatim>\<open>detail\<close>, and reads \<^verbatim>\<open>api_url\<close> and \<^verbatim>\<open>api_secret\<close> from the options: these are
  the fields of the two records.
\<close>

record PasswordlessProblemDetails =
  type :: string
  status :: int
  title :: string
  detail :: string

record PasswordlessOptions =
  api_url :: string
  api_secret :: string

text \<open>
  What a call of the client can raise: the one error of the client
  (\<^verbatim>\<open>PasswordlessError\<close>, wrapping the problem details), an error of a schema's
  \<^verbatim>\<open>loads\<close>, or an error of the transport (\<^verbatim>\<open>requests\<close>), which the client lets through.
\<close>

datatype decode_error = JSONDecodeError | ValidationError string

datatype error =
  PasswordlessError PasswordlessProblemDetails
| DeserializationError decode_error
| TransportError string

section \<open>Requests and responses (the transport's types)\<close>

text \<open>
  \<^verbatim>\<open>requests.Request\<close> with the attributes the client sets. A dictionary is a map.
  A \<^verbatim>\<open>Request\<close> built without \<^verbatim>\<open>params\<close> has the empty dictionary, one built without
  \<^verbatim>\<open>data\<close> has none (\<open>None\<close>). Of a \<^verbatim>\<open>Response\<close> the client reads the status code, the
  headers and the body text.
\<close>

record Request =
  method' :: string
  url :: string
  headers :: "string \<rightharpoonup> string"
  params :: "string \<rightharpoonup> string"
  data :: "string option"

record Response =
  status_code :: int
  headers :: "string \<rightharpoonup> string"
  text' :: string

text \<open>
  Sessions are objects: a client holds a reference to one. The store of session objects
  is a list, a reference is an index into it, and \<^verbatim>\<open>Session()\<close> allocates the next index.
  What a session object holds is the transport's business (\<open>'s\<close>).
\<close>

type_synonym session_ref = nat

definition Session_new :: "'s \<Rightarrow> 's list \<Rightarrow> session_ref \<times> 's list" where
  "Session_new default_session store = (length store, store @ [default_session])"

text \<open>
  The transport: what \<^verbatim>\<open>session.prepare_request\<close> followed by \<^verbatim>\<open>session.send\<close> with
  \<^verbatim>\<open>allow_redirects=True, timeout=30\<close> answers for the session object behind a reference
  and a request: a response, or an exception of the transport. An operation of the client
  sends once, so one answer for a request is all that a call observes.
\<close>

type_synonym transport = "session_ref \<Rightarrow> Request \<Rightarrow> string + Response"

section \<open>Serialization (serialization.py is not among the sources)\<close>

text \<open>
  Modelled from the spec: the schemas of \<^verbatim>\<open>serialization.py\<close>, which is not among the
  sources. The client's functions take the schema functions they call as parameters
  (\<^verbatim>\<open>dumps\<close> and \<^verbatim>\<open>loads\<close>), so what is proved of the client holds for every schema.
  The definitions of this section give the decoders the specification describes
  (section 4.3: a mapping between records and the wire's JSON, list envelopes unwrapped
  into \<^verbatim>\<open>values\<close>, decoding strict: a required field that is absent or mistyped is a
  deserialization error); they are the schemas wherever a statement needs a concrete one.

  JSON text is read as Python's \<^verbatim>\<open>json.loads\<close> reads it: white space, the literals,
  numbers (an integer is \<open>JInt\<close>; a number with a fraction or an exponent keeps its
  lexeme, \<open>JFloat\<close>), strings with the two-character escapes, arrays, objects (members in
  document order). Characters are bytes here, so an escape that names a code point
  (\<^verbatim>\<open>\u\<close>) is outside the model and is rejected. The reader descends with fuel;
  \<open>json_loads\<close> gives it more than any text can use (\<open>json_loads_fuel\<close> below).
\<close>

datatype json =
  JNull
| JBool bool
| JInt int
| JFloat string
| JString string
| JArray "json list"
| JObject "(string \<times> json) list"

datatype 'a parsed = Parsed 'a string | Malformed | OutOfFuel

definition is_ws :: "char \<Rightarrow> bool" where
  "is_ws c = (c = CHR '' '' \<or> c = CHR 0x09 \<or> c = CHR 0x0A \<or> c = CHR 0x0D)"

definition skip_ws :: "string \<Rightarrow> string" where
  "skip_ws cs = dropWhile is_ws cs"

definition is_digit :: "char \<Rightarrow> bool" where
  "is_digit c = (c \<in> set ''0123456789'')"

definition digits_val :: "string \<Rightarrow> int" where
  "digits_val ds = foldl (\<lambda>a c. 10 * a + (int (of_char c) - 48)) 0 ds"

definition unescape :: "char \<Rightarrow> char option" where
  "unescape e =
     (if e = CHR 0x22 then Some (CHR 0x22)
      else if e = CHR 0x5C then Some (CHR 0x5C)
      else if e = CHR ''/'' then Some (CHR ''/'')
      else if e = CHR ''b'' then Some (CHR 0x08)
      else if e = CHR ''f'' then Some (CHR 0x0C)
      else if e = CHR ''n'' then Some (CHR 0x0A)
      else if e = CHR ''r'' then Some (CHR 0x0D)
      else if e = CHR ''t'' then Some (CHR 0x09)
      else None)"

fun scan_string :: "string \<Rightarrow> string parsed" where
  "scan_string [] = Malformed"
| "scan_string (c # cs) =
     (if c = CHR 0x22 then Parsed [] cs
      else if c = CHR 0x5C then
        (case cs of
           [] \<Rightarrow> Malformed
         | e # cs' \<Rightarrow>
             (case unescape e of
                None \<Rightarrow> Malformed
              | Some d \<Rightarrow>
                  (case scan_string cs' of
                     Parsed s rest \<Rightarrow> Parsed (d # s) rest
                   | other \<Rightarrow> other)))
      else if (of_char c :: nat) < 32 then Malformed
      else (case scan_string cs of
              Parsed s rest \<Rightarrow> Parsed (c # s) rest
            | other \<Rightarrow> other))"

definition scan_number :: "string \<Rightarrow> json parsed" where
  "scan_number cs =
     (let (neg, cs1) = (case cs of
                          [] \<Rightarrow> (False, cs)
                        | c # r \<Rightarrow> if c = CHR ''-'' then (True, r) else (False, cs));
          int_part = (case cs1 of
                        [] \<Rightarrow> []
                      | c # r \<Rightarrow> if c = CHR ''0'' then [c] else takeWhile is_digit cs1);
          cs2 = drop (length int_part) cs1;
          frac = (case cs2 of
                    [] \<Rightarrow> []
                  | c # r \<Rightarrow> if c = CHR ''.'' \<and> takeWhile is_digit r \<noteq> []
                           then c # takeWhile is_digit r else []);
          cs3 = drop (length frac) cs2;
          expo = (case cs3 of
                    [] \<Rightarrow> []
                  | c # r \<Rightarrow>
                      if c = CHR ''e'' \<or> c = CHR ''E'' then
                        (let sgn = (case r of
                                      [] \<Rightarrow> []
                                    | s # r' \<Rightarrow> if s = CHR ''+'' \<or> s = CHR ''-'' then [s] else []);
                             ds = takeWhile is_digit (drop (length sgn) r)
                         in if ds = [] then [] else c # sgn @ ds)
                      else []);
          cs4 = drop (length expo) cs3
      in if int_part = [] then Malformed
         else if frac = [] \<and> expo = [] then
           Parsed (JInt ((if neg then - 1 else 1) * digits_val int_part)) cs4
         else Parsed (JFloat (take (length cs - length cs4) cs)) cs4)"

fun parse_value :: "nat \<Rightarrow> string \<Rightarrow> json parsed"
and parse_array :: "nat \<Rightarrow> string \<Rightarrow> (json list) parsed"
and parse_object :: "nat \<Rightarrow> string \<Rightarrow> ((string \<times> json) list) parsed"
where
  "parse_value 0 cs = OutOfFuel"
| "parse_value (Suc n) cs =
     (case cs of
        [] \<Rightarrow> Malformed
      | c # r \<Rightarrow>
          if c = CHR 0x22 then
            (case scan_string r of
               Parsed s rest \<Rightarrow> Parsed (JString s) rest
             | Malformed \<Rightarrow> Malformed
             | OutOfFuel \<Rightarrow> OutOfFuel)
          else if c = CHR ''{'' then
            (case skip_ws r of
               [] \<Rightarrow> Malformed
             | d # r' \<Rightarrow>
                 if d = CHR ''}'' then Parsed (JObject []) r'
                 else (case parse_object n (d # r') of
                         Parsed ms rest \<Rightarrow> Parsed (JObject ms) rest
                       | Malformed \<Rightarrow> Malformed
                       | OutOfFuel \<Rightarrow> OutOfFuel))
          else if c = CHR ''['' then
            (case skip_ws r of
               [] \<Rightarrow> Malformed
             | d # r' \<Rightarrow>
                 if d = CHR '']'' then Parsed (JArray []) r'
                 else (case parse_array n (d # r') of
                         Parsed vs rest \<Rightarrow> Parsed (JArray vs) rest
                       | Malformed \<Rightarrow> Malformed
                       | OutOfFuel \<Rightarrow> OutOfFuel))
          else if prefix ''null'' cs then Parsed JNull (drop 4 cs)
          else if prefix ''true'' cs then Parsed (JBool True) (drop 4 cs)
          else if prefix ''false'' cs then Parsed (JBool False) (drop 5 cs)
          else if prefix ''NaN'' cs then Parsed (JFloat ''NaN'') (drop 3 cs)
          else if prefix ''Infinity'' cs then Parsed (JFloat ''Infinity'') (drop 8 cs)
          else if prefix ''-Infinity'' cs then Parsed (JFloat ''-Infinity'') (drop 9 cs)
          else scan_number cs)"
| "parse_array 0 cs = OutOfFuel"
| "parse_array (Suc n) cs =
     (case parse_value n cs of
        Malformed \<Rightarrow> Malformed
      | OutOfFuel \<Rightarrow> OutOfFuel
      | Parsed v rest \<Rightarrow>
          (case skip_ws rest of
             [] \<Rightarrow> Malformed
           | c # r \<Rightarrow>
               if c = CHR '','' then
                 (case parse_array n (skip_ws r) of
                    Parsed vs rest' \<Rightarrow> Parsed (v # vs) rest'
                  | Malformed \<Rightarrow> Malformed
                  | OutOfFuel \<Rightarrow> OutOfFuel)
               else if c = CHR '']'' then Parsed [v] r
               else Malformed))"
| "parse_object 0 cs = OutOfFuel"
| "parse_object (Suc n) cs =
     (case cs of
        [] \<Rightarrow> Malformed
      | c # r \<Rightarrow>
          if c = CHR 0x22 then
            (case scan_string r of
               Malformed \<Rightarrow> Malformed
             | OutOfFuel \<Rightarrow> OutOfFuel
             | Parsed k rest \<Rightarrow>
                 (case skip_ws rest of
                    [] \<Rightarrow> Malformed
                  | c2 # r2 \<Rightarrow>
                      if c2 = CHR '':'' then
                        (case parse_value n (skip_ws r2) of
                           Malformed \<Rightarrow> Malformed
                         | OutOfFuel \<Rightarrow> OutOfFuel
                         | Parsed v rest2 \<Rightarrow>
                             (case skip_ws rest2 of
                                [] \<Rightarrow> Malformed
                              | c3 # r3 \<Rightarrow>
                                  if c3 = CHR '','' then
                                    (case parse_object n (skip_ws r3) of
                                       Parsed ms rest3 \<Rightarrow> Parsed ((k, v) # ms) rest3
                                     | Malformed \<Rightarrow> Malformed
                                     | OutOfFuel \<Rightarrow> OutOfFuel)
                                  else if c3 = CHR ''}'' then Parsed [(k, v)] r3
                                  else Malformed))
                      else Malformed))
          else Malformed)"

definition json_loads :: "string \<Rightarrow> json option" where
  \<comment> \<open>Modelled from the spec: the reading of the wire's JSON text, which the schemas of
      the missing \<^verbatim>\<open>serialization.py\<close> do; \<open>None\<close> is a text that is not JSON.\<close>
  "json_loads s =
     (case parse_value (2 * length s + 1) (skip_ws s) of
        Parsed v rest \<Rightarrow> if skip_ws rest = [] then Some v else None
      | Malformed \<Rightarrow> None
      | OutOfFuel \<Rightarrow> None)"

text \<open>
  A Python \<^verbatim>\<open>dict\<close> keeps the last value of a repeated key.
\<close>

definition json_get :: "(string \<times> json) list \<Rightarrow> string \<Rightarrow> json option" where
  "json_get ms k = map_of (rev ms) k"

text \<open>
  Modelled from the spec: \<^verbatim>\<open>PasswordlessProblemDetailsSchema\<close> (missing with
  \<^verbatim>\<open>serialization.py\<close>). The wire names are those of the specification's scenario
  \<^verbatim>\<open>{"type":"...","status":400,"title":"Bad user","detail":"username taken"}\<close>;
  \<^verbatim>\<open>type\<close>, \<^verbatim>\<open>title\<close> and \<^verbatim>\<open>detail\<close> are strings, \<^verbatim>\<open>status\<close> is an integer, all four
  required.
\<close>

definition PasswordlessProblemDetailsSchema_load ::
  "json \<Rightarrow> decode_error + PasswordlessProblemDetails" where
  "PasswordlessProblemDetailsSchema_load j =
     (case j of
        JObject ms \<Rightarrow>
          (case json_get ms ''type'' of
             Some (JString t) \<Rightarrow>
               (case json_get ms ''status'' of
                  Some (JInt s) \<Rightarrow>
                    (case json_get ms ''title'' of
                       Some (JString ti) \<Rightarrow>
                         (case json_get ms ''detail'' of
                            Some (JString d) \<Rightarrow>
                              Inr \<lparr>type = t, status = s, title = ti, detail = d\<rparr>
                          | _ \<Rightarrow> Inl (ValidationError ''detail''))
                     | _ \<Rightarrow> Inl (ValidationError ''title''))
                | _ \<Rightarrow> Inl (ValidationError ''status''))
           | _ \<Rightarrow> Inl (ValidationError ''type''))
      | _ \<Rightarrow> Inl (ValidationError ''_schema''))"

definition PasswordlessProblemDetailsSchema_loads ::
  "string \<Rightarrow> decode_error + PasswordlessProblemDetails option" where
  \<comment> \<open>Modelled from the spec: \<^verbatim>\<open>PasswordlessProblemDetailsSchema().loads\<close>, missing with
      \<^verbatim>\<open>serialization.py\<close>; it yields a record or raises, never \<^verbatim>\<open>None\<close>.\<close>
  "PasswordlessProblemDetailsSchema_loads s =
     (case json_loads s of
        None \<Rightarrow> Inl JSONDecodeError
      | Some j \<Rightarrow>
          (case PasswordlessProblemDetailsSchema_load j of
             Inl e \<Rightarrow> Inl e
           | Inr problem_details \<Rightarrow> Inr (Some problem_details)))"

text \<open>
  Modelled from the spec: the list schemas (\<^verbatim>\<open>AliasListResponseSchema\<close>,
  \<^verbatim>\<open>CredentialListResponseSchema\<close>, \<^verbatim>\<open>UserSummaryListResponseSchema\<close>, missing with
  \<^verbatim>\<open>serialization.py\<close>): the envelope is an object whose member \<^verbatim>\<open>values\<close> is an array
  (the scenario \<^verbatim>\<open>{"values": []}\<close>); every element is decoded by the element's schema
  \<open>item_load\<close>, in the array's order, and the first element that fails fails the whole.
\<close>

fun load_many :: "(json \<Rightarrow> decode_error + 'a) \<Rightarrow> json list \<Rightarrow> decode_error + 'a list" where
  "load_many item_load [] = Inr []"
| "load_many item_load (j # js) =
     (case item_load j of
        Inl e \<Rightarrow> Inl e
      | Inr x \<Rightarrow>
          (case load_many item_load js of
             Inl e \<Rightarrow> Inl e
           | Inr xs \<Rightarrow> Inr (x # xs)))"

definition ListResponseSchema_loads ::
  "(json \<Rightarrow> decode_error + 'a) \<Rightarrow> string \<Rightarrow> decode_error + 'a ListResponse" where
  \<comment> \<open>Modelled from the spec: the \<^verbatim>\<open>loads\<close> of a list schema, missing with
      \<^verbatim>\<open>serialization.py\<close>.\<close>
  "ListResponseSchema_loads item_load s =
     (case json_loads s of
        None \<Rightarrow> Inl JSONDecodeError
      | Some j \<Rightarrow>
          (case j of
             JObject ms \<Rightarrow>
               (case json_get ms ''values'' of
                  Some (JArray js) \<Rightarrow>
                    (case load_many item_load js of
                       Inl e \<Rightarrow> Inl e
                     | Inr xs \<Rightarrow> Inr \<lparr>values' = xs\<rparr>)
                | _ \<Rightarrow> Inl (ValidationError ''values''))
           | _ \<Rightarrow> Inl (ValidationError ''_schema'')))"

section \<open>The client (client.py)\<close>

record PasswordlessApiClientImpl =
  options :: PasswordlessOptions
  session :: session_ref

definition build_url :: "PasswordlessApiClientImpl \<Rightarrow> string \<Rightarrow> string" where
  "build_url self path = api_url (PasswordlessApiClientImpl.options self) @ path"

definition build_headers :: "PasswordlessApiClientImpl \<Rightarrow> bool \<Rightarrow> (string \<rightharpoonup> string)" where
  "build_headers self post =
     (let headers = [''ApiSecret'' \<mapsto> api_secret (PasswordlessApiClientImpl.options self)]
      in if post then headers(''Content-Type'' \<mapsto> ''application/json; charset=UTF-8'')
         else headers)"

definition get_request ::
  "PasswordlessApiClientImpl \<Rightarrow> string \<Rightarrow> (string \<rightharpoonup> string) option \<Rightarrow> Request" where
  "get_request self path query_params =
     (let query_params = (case query_params of None \<Rightarrow> Map.empty | Some q \<Rightarrow> q);
          url = build_url self path;
          headers = build_headers self False
      in \<lparr>method' = ''GET'', url = url, Request.headers = headers,
          params = query_params, data = None\<rparr>)"

definition post_request :: "PasswordlessApiClientImpl \<Rightarrow> string \<Rightarrow> string \<Rightarrow> Request" where
  "post_request self path data' =
     (let url = build_url self path;
          headers = build_headers self True
      in \<lparr>method' = ''POST'', url = url, Request.headers = headers,
          params = Map.empty, data = Some data'\<rparr>)"

subsection \<open>Error normalization\<close>

text \<open>
  \<^verbatim>\<open>handle_response_error\<close> never returns: its value is the exception it raises, its own
  \<^verbatim>\<open>PasswordlessError\<close> or the one \<^verbatim>\<open>loads\<close> raised, which no handler catches. \<open>loads\<close> is
  \<^verbatim>\<open>PasswordlessProblemDetailsSchema().loads\<close>. The headers of a response are the
  transport's dictionary: \<open>headers response name\<close> is what it holds for a name. The
  calls of \<^verbatim>\<open>logging.debug\<close> have no part in the result and are left out.
\<close>

definition handle_response_error ::
  "(string \<Rightarrow> decode_error + PasswordlessProblemDetails option) \<Rightarrow> Response \<Rightarrow> error" where
  "handle_response_error loads response =
     (case (case Response.headers response ''Content-Type'' of
              None \<Rightarrow> Inr None
            | Some content_type \<Rightarrow>
                if prefix ''application/problem+json'' content_type
                then loads (text' response)
                else Inr None) of
        Inl e \<Rightarrow> DeserializationError e
      | Inr problem_details \<Rightarrow>
          PasswordlessError
            (case problem_details of
               None \<Rightarrow>
                 \<lparr>type = ''https://docs.passwordless.dev/guide/errors.html'',
                  status = status_code response,
                  title = ''Unexpected error'',
                  detail = text' response\<rparr>
             | Some decoded \<Rightarrow> decoded))"

subsection \<open>Sending\<close>

text \<open>
  A call either returns a value or raises (\<open>Inl\<close>). The requests handed to the session
  are recorded, in order: every function that sends takes the record so far and returns
  it extended.
\<close>

definition send_request ::
  "(string \<Rightarrow> decode_error + PasswordlessProblemDetails option) \<Rightarrow>
   PasswordlessApiClientImpl \<Rightarrow> transport \<Rightarrow> Request \<Rightarrow> Request list \<Rightarrow>
   (error + string) \<times> Request list" where
  "send_request loads self send request sent =
     (case send (PasswordlessApiClientImpl.session self) request of
        Inl e \<Rightarrow> (Inl (TransportError e), sent @ [request])
      | Inr response \<Rightarrow>
          if status_code response \<ge> 400
          then (Inl (handle_response_error loads response), sent @ [request])
          else (Inr (text' response), sent @ [request]))"

subsection \<open>The nine operations\<close>

text \<open>
  Each operation takes the schema functions it calls (\<open>dumps\<close> of the payload's schema,
  \<open>schema_loads\<close> of the result's schema, \<open>loads\<close> of the problem details' schema), the
  client, the transport, its argument and the record of requests. The annotations
  \<^verbatim>\<open>List[Alias]\<close>, \<^verbatim>\<open>RegisteredToken\<close> and the like are hints in Python: an operation
  returns what the schema decoded, so the result types are those of the schemas.
\<close>

definition create_alias ::
  "(CreateAlias \<Rightarrow> string) \<Rightarrow> (string \<Rightarrow> decode_error + PasswordlessProblemDetails option) \<Rightarrow>
   PasswordlessApiClientImpl \<Rightarrow> transport \<Rightarrow> CreateAlias \<Rightarrow> Request list \<Rightarrow>
   (error + unit) \<times> Request list" where
  "create_alias dumps loads self send payload sent =
     (let request_data = dumps payload;
          request = post_request self ''/alias'' request_data
      in case send_request loads self send request sent of
           (Inl e, sent') \<Rightarrow> (Inl e, sent')
         | (Inr response_data, sent') \<Rightarrow> (Inr (), sent'))"

definition get_aliases ::
  "(string \<Rightarrow> decode_error + 'a ListResponse) \<Rightarrow>
   (string \<Rightarrow> decode_error + PasswordlessProblemDetails option) \<Rightarrow>
   PasswordlessApiClientImpl \<Rightarrow> transport \<Rightarrow> string \<Rightarrow> Request list \<Rightarrow>
   (error + 'a list) \<times> Request list" where
  "get_aliases schema_loads loads self send user_id' sent =
     (let request = get_request self ''/alias/list'' (Some [''userId'' \<mapsto> user_id'])
      in case send_request loads self send request sent of
           (Inl e, sent') \<Rightarrow> (Inl e, sent')
         | (Inr response_data, sent') \<Rightarrow>
             (case schema_loads response_data of
                Inl e \<Rightarrow> (Inl (DeserializationError e), sent')
              | Inr list_response \<Rightarrow> (Inr (values' list_response), sent')))"

definition update_apps_feature ::
  "(UpdateAppsFeature \<Rightarrow> string) \<Rightarrow>
   (string \<Rightarrow> decode_error + PasswordlessProblemDetails option) \<Rightarrow>
   PasswordlessApiClientImpl \<Rightarrow> transport \<Rightarrow> UpdateAppsFeature \<Rightarrow> Request list \<Rightarrow>
   (error + unit) \<times> Request list" where
  "update_apps_feature dumps loads self send payload sent =
     (let request_data = dumps payload;
          request = post_request self ''/apps/features'' request_data
      in case send_request loads self send request sent of
           (Inl e, sent') \<Rightarrow> (Inl e, sent')
         | (Inr response_data, sent') \<Rightarrow> (Inr (), sent'))"

definition delete_credential ::
  "(DeleteCredential \<Rightarrow> string) \<Rightarrow>
   (string \<Rightarrow> decode_error + PasswordlessProblemDetails option) \<Rightarrow>
   PasswordlessApiClientImpl \<Rightarrow> transport \<Rightarrow> DeleteCredential \<Rightarrow> Request list \<Rightarrow>
   (error + unit) \<times> Request list" where
  "delete_credential dumps loads self send payload sent =
     (let request_data = dumps payload;
          request = post_request self ''/credentials/delete'' request_data
      in case send_request loads self send request sent of
           (Inl e, sent') \<Rightarrow> (Inl e, sent')
         | (Inr response_data, sent') \<Rightarrow> (Inr (), sent'))"

definition get_credentials ::
  "(string \<Rightarrow> decode_error + 'a ListResponse) \<Rightarrow>
   (string \<Rightarrow> decode_error + PasswordlessProblemDetails option) \<Rightarrow>
   PasswordlessApiClientImpl \<Rightarrow> transport \<Rightarrow> string \<Rightarrow> Request list \<Rightarrow>
   (error + 'a list) \<times> Request list" where
  "get_credentials schema_loads loads self send user_id' sent =
     (let request = get_request self ''/credentials/list'' (Some [''userId'' \<mapsto> user_id'])
      in case send_request loads self send request sent of
           (Inl e, sent') \<Rightarrow> (Inl e, sent')
         | (Inr response_data, sent') \<Rightarrow>
             (case schema_loads response_data of
                Inl e \<Rightarrow> (Inl (DeserializationError e), sent')
              | Inr list_response \<Rightarrow> (Inr (values' list_response), sent')))"

definition register_token ::
  "(RegisterToken \<Rightarrow> string) \<Rightarrow> (string \<Rightarrow> decode_error + 'a) \<Rightarrow>
   (string \<Rightarrow> decode_error + PasswordlessProblemDetails option) \<Rightarrow>
   PasswordlessApiClientImpl \<Rightarrow> transport \<Rightarrow> RegisterToken \<Rightarrow> Request list \<Rightarrow>
   (error + 'a) \<times> Request list" where
  "register_token dumps schema_loads loads self send payload sent =
     (let request_data = dumps payload;
          request = post_request self ''/register/token'' request_data
      in case send_request loads self send request sent of
           (Inl e, sent') \<Rightarrow> (Inl e, sent')
         | (Inr response_data, sent') \<Rightarrow>
             (case schema_loads response_data of
                Inl e \<Rightarrow> (Inl (DeserializationError e), sent')
              | Inr registered \<Rightarrow> (Inr registered, sent')))"

definition sign_in ::
  "(VerifySignIn \<Rightarrow> string) \<Rightarrow> (string \<Rightarrow> decode_error + 'a) \<Rightarrow>
   (string \<Rightarrow> decode_error + PasswordlessProblemDetails option) \<Rightarrow>
   PasswordlessApiClientImpl \<Rightarrow> transport \<Rightarrow> VerifySignIn \<Rightarrow> Request list \<Rightarrow>
   (error + 'a) \<times> Request list" where
  "sign_in dumps schema_loads loads self send payload sent =
     (let request_data = dumps payload;
          request = post_request self ''/signin/verify'' request_data
      in case send_request loads self send request sent of
           (Inl e, sent') \<Rightarrow> (Inl e, sent')
         | (Inr response_data, sent') \<Rightarrow>
             (case schema_loads response_data of
                Inl e \<Rightarrow> (Inl (DeserializationError e), sent')
              | Inr verified \<Rightarrow> (Inr verified, sent')))"

definition get_users ::
  "(string \<Rightarrow> decode_error + 'a ListResponse) \<Rightarrow>
   (string \<Rightarrow> decode_error + PasswordlessProblemDetails option) \<Rightarrow>
   PasswordlessApiClientImpl \<Rightarrow> transport \<Rightarrow> Request list \<Rightarrow>
   (error + 'a list) \<times> Request list" where
  "get_users schema_loads loads self send sent =
     (let request = get_request self ''/users/list'' None
      in case send_request loads self send request sent of
           (Inl e, sent') \<Rightarrow> (Inl e, sent')
         | (Inr response_data, sent') \<Rightarrow>
             (case schema_loads response_data of
                Inl e \<Rightarrow> (Inl (DeserializationError e), sent')
              | Inr list_response \<Rightarrow> (Inr (values' list_response), sent')))"

definition delete_user ::
  "(DeleteUser \<Rightarrow> string) \<Rightarrow>
   (string \<Rightarrow> decode_error + PasswordlessProblemDetails option) \<Rightarrow>
   PasswordlessApiClientImpl \<Rightarrow> transport \<Rightarrow> DeleteUser \<Rightarrow> Request list \<Rightarrow>
   (error + unit) \<times> Request list" where
  "delete_user dumps loads self send payload sent =
     (let request_data = dumps payload;
          request = post_request self ''/users/delete'' request_data
      in case send_request loads self send request sent of
           (Inl e, sent') \<Rightarrow> (Inl e, sent')
         | (Inr response_data, sent') \<Rightarrow> (Inr (), sent'))"

subsection \<open>The builder\<close>

text \<open>
  \<^verbatim>\<open>PasswordlessApiClientBuilder.__init__\<close> takes the options and an optional session;
  with none it calls \<^verbatim>\<open>Session()\<close>, which allocates a session object in the store
  (\<open>default_session\<close> is what a newly constructed session holds). \<^verbatim>\<open>build\<close> hands both
  attributes to the client's constructor.
\<close>

record PasswordlessApiClientBuilder =
  options :: PasswordlessOptions
  session :: session_ref

definition PasswordlessApiClientBuilder_init ::
  "'s \<Rightarrow> PasswordlessOptions \<Rightarrow> session_ref option \<Rightarrow> 's list \<Rightarrow>
   PasswordlessApiClientBuilder \<times> 's list" where
  "PasswordlessApiClientBuilder_init default_session options' session' store =
     (case session' of
        None \<Rightarrow>
          (case Session_new default_session store of
             (fresh, store') \<Rightarrow>
               (\<lparr>PasswordlessApiClientBuilder.options = options',
                 session = fresh\<rparr>, store'))
      | Some given \<Rightarrow>
          (\<lparr>PasswordlessApiClientBuilder.options = options',
            session = given\<rparr>, store))"

definition PasswordlessApiClientImpl_init ::
  "PasswordlessOptions \<Rightarrow> session_ref \<Rightarrow> PasswordlessApiClientImpl" where
  "PasswordlessApiClientImpl_init options' session' =
     \<lparr>PasswordlessApiClientImpl.options = options', session = session'\<rparr>"

definition build :: "PasswordlessApiClientBuilder \<Rightarrow> PasswordlessApiClientImpl" where
  "build self =
     PasswordlessApiClientImpl_init (PasswordlessApiClientBuilder.options self)
       (PasswordlessApiClientBuilder.session self)"

section \<open>The JSON reader has fuel enough\<close>

text \<open>
  A successful step of the reader consumes input, and a descent costs at most two
  units of fuel for every character consumed. So the fuel \<open>json_loads\<close> gives,
  \<open>2 * length s + 1\<close>, is never used up: a text that \<open>json_loads\<close> rejects is
  malformed, or has trailing data.
\<close>

lemma skip_ws_length: "length (skip_ws cs) \<le> length cs"
  by (simp add: skip_ws_def length_dropWhile_le)

lemma scan_string_fuel: "scan_string cs \<noteq> OutOfFuel"
proof (induction cs rule: scan_string.induct)
  case 1
  show ?case by simp
next
  case (2 c cs)
  show ?case
  proof (cases cs)
    case Nil
    then show ?thesis by simp
  next
    case (Cons e cs')
    with 2 show ?thesis
      by (cases "unescape e"; cases "scan_string cs'"; cases "scan_string (e # cs')")
         (auto simp del: scan_string.simps simp add: scan_string.simps(2) [of c])
  qed
qed

lemma scan_string_shorter:
  "scan_string cs = Parsed s rest \<Longrightarrow> length rest < length cs"
proof (induction "length cs" arbitrary: cs s rest rule: less_induct)
  case less
  show ?case
  proof (cases cs)
    case Nil
    with less.prems show ?thesis by simp
  next
    case outer: (Cons c r)
    have IH_r: "\<And>s' rest'. scan_string r = Parsed s' rest' \<Longrightarrow> length rest' < length r"
      using less.hyps [of r] outer by simp
    show ?thesis
    proof (cases r)
      case Nil
      with outer less.prems show ?thesis
        by (simp split: if_splits)
    next
      case inner: (Cons e r')
      have IH_r': "\<And>s' rest'. scan_string r' = Parsed s' rest' \<Longrightarrow> length rest' < length r'"
        using less.hyps [of r'] outer inner by simp
      from less.prems have
        "scan_string (c # r) = Parsed s rest" using outer by simp
      then show ?thesis
        apply (subst (asm) scan_string.simps(2))
        using IH_r IH_r' outer inner
        apply (auto simp del: scan_string.simps
                    split: if_splits option.splits parsed.splits
                    dest!: IH_r IH_r')
        done
    qed
  qed
qed

lemma scan_number_fuel: "scan_number cs \<noteq> OutOfFuel"
  unfolding scan_number_def Let_def
  by (simp split: prod.split)

lemma int_part_length:
  "length (case xs of [] \<Rightarrow> []
           | c # r \<Rightarrow> if c = CHR ''0'' then [c] else takeWhile is_digit xs) \<le> length xs"
  by (cases xs) (simp_all add: length_takeWhile_le le_SucI)

lemma scan_number_shorter:
  assumes "scan_number cs = Parsed v rest"
  shows "length rest < length cs"
proof -
  obtain neg cs1 where sign:
    "(case cs of [] \<Rightarrow> (False, cs)
      | c # r \<Rightarrow> if c = CHR ''-'' then (True, r) else (False, cs)) = (neg, cs1)"
    by (cases "case cs of [] \<Rightarrow> (False, cs)
      | c # r \<Rightarrow> if c = CHR ''-'' then (True, r) else (False, cs)") blast
  have len_cs1: "length cs1 \<le> length cs"
    using sign by (auto split: list.splits if_splits)
  let ?ip = "case cs1 of [] \<Rightarrow> []
             | c # r \<Rightarrow> if c = CHR ''0'' then [c] else takeWhile is_digit cs1"
  have bound: "?ip \<noteq> [] \<and> length rest \<le> length cs1 - length ?ip"
    using assms sign
    unfolding scan_number_def Let_def
    by (auto split: if_splits)
  have whole: "length ?ip \<le> length cs1"
    by (rule int_part_length)
  from bound have some: "0 < length ?ip"
    by simp
  from bound have "length rest \<le> length cs1 - length ?ip"
    by simp
  with whole some len_cs1 show ?thesis
    by linarith
qed

lemma skip_ws_Cons: "skip_ws cs = c # r \<Longrightarrow> length r < length cs"
  using skip_ws_length [of cs] by simp

lemma value_step_shorter:
  assumes A: "\<And>cs vs rest. parse_array n cs = Parsed vs rest \<Longrightarrow> length rest < length cs"
    and O: "\<And>cs ms rest. parse_object n cs = Parsed ms rest \<Longrightarrow> length rest < length cs"
    and run: "parse_value (Suc n) cs = Parsed v rest"
  shows "length rest < length cs"
proof (cases cs)
  case Nil
  with run show ?thesis by simp
next
  case (Cons c r)
  consider (str) "c = CHR 0x22"
    | (obj) "c \<noteq> CHR 0x22" "c = CHR ''{''"
    | (arr) "c \<noteq> CHR 0x22" "c \<noteq> CHR ''{''" "c = CHR ''[''"
    | (other) "c \<noteq> CHR 0x22" "c \<noteq> CHR ''{''" "c \<noteq> CHR ''[''"
    by blast
  then show ?thesis
  proof cases
    case str
    with run Cons show ?thesis
      by (cases "scan_string r") (auto dest!: scan_string_shorter)
  next
    case obj
    show ?thesis
    proof (cases "skip_ws r")
      case Nil
      with run Cons obj show ?thesis by simp
    next
      case inner: (Cons d r')
      from inner have "length r' < length r" by (rule skip_ws_Cons)
      with run Cons obj inner show ?thesis
        by (cases "parse_object n (d # r')") (auto split: if_splits dest!: O)
    qed
  next
    case arr
    show ?thesis
    proof (cases "skip_ws r")
      case Nil
      with run Cons arr show ?thesis by simp
    next
      case inner: (Cons d r')
      from inner have "length r' < length r" by (rule skip_ws_Cons)
      with run Cons arr inner show ?thesis
        by (cases "parse_array n (d # r')") (auto split: if_splits dest!: A)
    qed
  next
    case other
    from run Cons other have
      "rest = drop 4 cs \<or> rest = drop 5 cs \<or> rest = drop 3 cs \<or> rest = drop 8 cs
       \<or> rest = drop 9 cs \<or> scan_number cs = Parsed v rest"
      by (simp del: Cons_prefix_Cons drop_Suc_Cons split: if_splits)
    with Cons show ?thesis
      by (auto simp del: drop_Suc_Cons dest!: scan_number_shorter)
  qed
qed

lemma array_step_shorter:
  assumes V: "\<And>cs v rest. parse_value n cs = Parsed v rest \<Longrightarrow> length rest < length cs"
    and A: "\<And>cs vs rest. parse_array n cs = Parsed vs rest \<Longrightarrow> length rest < length cs"
    and run: "parse_array (Suc n) cs = Parsed vs rest"
  shows "length rest < length cs"
proof (cases "parse_value n cs")
  case (Parsed v rest1)
  then have first: "length rest1 < length cs" by (rule V)
  show ?thesis
  proof (cases "skip_ws rest1")
    case Nil
    with run Parsed show ?thesis by simp
  next
    case (Cons c r)
    then have after: "length r < length rest1" by (rule skip_ws_Cons)
    show ?thesis
    proof (cases "c = CHR '',''")
      case True
      show ?thesis
      proof (cases "parse_array n (skip_ws r)")
        case more: (Parsed vs' rest')
        then have "length rest' < length (skip_ws r)" by (rule A)
        with skip_ws_length [of r] first after have "length rest' < length cs" by linarith
        with run Parsed Cons True more show ?thesis by simp
      qed (use run Parsed Cons True in simp_all)
    next
      case False
      with run Parsed Cons first after show ?thesis
        by (auto split: if_splits)
    qed
  qed
qed (use run in simp_all)

lemma object_step_shorter:
  assumes V: "\<And>cs v rest. parse_value n cs = Parsed v rest \<Longrightarrow> length rest < length cs"
    and O: "\<And>cs ms rest. parse_object n cs = Parsed ms rest \<Longrightarrow> length rest < length cs"
    and run: "parse_object (Suc n) cs = Parsed ms rest"
  shows "length rest < length cs"
proof (cases cs)
  case Nil
  with run show ?thesis by simp
next
  case outer: (Cons c r)
  show ?thesis
  proof (cases "c = CHR 0x22")
    case False
    with run outer show ?thesis by simp
  next
    case quote: True
    show ?thesis
    proof (cases "scan_string r")
      case key: (Parsed k rest0)
      then have l0: "length rest0 < length r" by (rule scan_string_shorter)
      show ?thesis
      proof (cases "skip_ws rest0")
        case Nil
        with run outer quote key show ?thesis by simp
      next
        case colon: (Cons c2 r2)
        then have l2: "length r2 < length rest0" by (rule skip_ws_Cons)
        show ?thesis
        proof (cases "c2 = CHR '':''")
          case False
          with run outer quote key colon show ?thesis by simp
        next
          case is_colon: True
          show ?thesis
          proof (cases "parse_value n (skip_ws r2)")
            case val: (Parsed v rest2)
            then have "length rest2 < length (skip_ws r2)" by (rule V)
            with skip_ws_length [of r2] have l3: "length rest2 < length r2" by linarith
            show ?thesis
            proof (cases "skip_ws rest2")
              case Nil
              with run outer quote key colon is_colon val show ?thesis by simp
            next
              case sep: (Cons c3 r3)
              then have l4: "length r3 < length rest2" by (rule skip_ws_Cons)
              show ?thesis
              proof (cases "c3 = CHR '',''")
                case comma: True
                show ?thesis
                proof (cases "parse_object n (skip_ws r3)")
                  case more: (Parsed ms' rest3)
                  then have "length rest3 < length (skip_ws r3)" by (rule O)
                  with skip_ws_length [of r3] l0 l2 l3 l4 outer
                  have "length rest3 < length cs" by simp
                  with run outer quote key colon is_colon val sep comma more
                  show ?thesis by simp
                qed (use run outer quote key colon is_colon val sep comma in simp_all)
              next
                case False
                with run outer quote key colon is_colon val sep l0 l2 l3 l4
                show ?thesis by (auto split: if_splits)
              qed
            qed
          qed (use run outer quote key colon is_colon in simp_all)
        qed
      qed
    qed (use run outer quote in simp_all)
  qed
qed

lemma parse_shorter:
  "(\<forall>cs v rest. parse_value n cs = Parsed v rest \<longrightarrow> length rest < length cs)
   \<and> (\<forall>cs vs rest. parse_array n cs = Parsed vs rest \<longrightarrow> length rest < length cs)
   \<and> (\<forall>cs ms rest. parse_object n cs = Parsed ms rest \<longrightarrow> length rest < length cs)"
proof (induction n)
  case 0
  show ?case by simp
next
  case (Suc n)
  then have V: "\<And>cs v rest. parse_value n cs = Parsed v rest \<Longrightarrow> length rest < length cs"
    and A: "\<And>cs vs rest. parse_array n cs = Parsed vs rest \<Longrightarrow> length rest < length cs"
    and O: "\<And>cs ms rest. parse_object n cs = Parsed ms rest \<Longrightarrow> length rest < length cs"
    by blast+
  have "length rest < length cs" if "parse_value (Suc n) cs = Parsed v rest" for cs v rest
    using A O that by (rule value_step_shorter [where n = n])
  moreover
  have "length rest < length cs" if "parse_array (Suc n) cs = Parsed vs rest" for cs vs rest
    using V A that by (rule array_step_shorter [where n = n])
  moreover
  have "length rest < length cs" if "parse_object (Suc n) cs = Parsed ms rest" for cs ms rest
    using V O that by (rule object_step_shorter [where n = n])
  ultimately show ?case
    by blast
qed

lemma parse_value_shorter:
  "parse_value n cs = Parsed v rest \<Longrightarrow> length rest < length cs"
  using parse_shorter [of n] by blast

lemma value_step_fuel:
  assumes A: "\<And>cs. 2 * length cs + 1 < n \<Longrightarrow> parse_array n cs \<noteq> OutOfFuel"
    and O: "\<And>cs. 2 * length cs + 1 < n \<Longrightarrow> parse_object n cs \<noteq> OutOfFuel"
    and fuel: "2 * length cs < Suc n"
  shows "parse_value (Suc n) cs \<noteq> OutOfFuel"
proof (cases cs)
  case Nil
  then show ?thesis by simp
next
  case (Cons c r)
  consider (str) "c = CHR 0x22"
    | (obj) "c \<noteq> CHR 0x22" "c = CHR ''{''"
    | (arr) "c \<noteq> CHR 0x22" "c \<noteq> CHR ''{''" "c = CHR ''[''"
    | (other) "c \<noteq> CHR 0x22" "c \<noteq> CHR ''{''" "c \<noteq> CHR ''[''"
    by blast
  then show ?thesis
  proof cases
    case str
    with Cons scan_string_fuel [of r] show ?thesis
      by (cases "scan_string r") simp_all
  next
    case obj
    show ?thesis
    proof (cases "skip_ws r")
      case Nil
      with Cons obj show ?thesis by simp
    next
      case inner: (Cons d r')
      from inner have "length r' < length r" by (rule skip_ws_Cons)
      with fuel Cons have "2 * length (d # r') + 1 < n" by simp
      then have "parse_object n (d # r') \<noteq> OutOfFuel" by (rule O)
      with Cons obj inner show ?thesis
        by (cases "parse_object n (d # r')") simp_all
    qed
  next
    case arr
    show ?thesis
    proof (cases "skip_ws r")
      case Nil
      with Cons arr show ?thesis by simp
    next
      case inner: (Cons d r')
      from inner have "length r' < length r" by (rule skip_ws_Cons)
      with fuel Cons have "2 * length (d # r') + 1 < n" by simp
      then have "parse_array n (d # r') \<noteq> OutOfFuel" by (rule A)
      with Cons arr inner show ?thesis
        by (cases "parse_array n (d # r')") simp_all
    qed
  next
    case other
    with Cons scan_number_fuel [of cs] show ?thesis
      by (simp del: Cons_prefix_Cons drop_Suc_Cons)
  qed
qed

lemma array_step_fuel:
  assumes V: "\<And>cs. 2 * length cs < n \<Longrightarrow> parse_value n cs \<noteq> OutOfFuel"
    and A: "\<And>cs. 2 * length cs + 1 < n \<Longrightarrow> parse_array n cs \<noteq> OutOfFuel"
    and fuel: "2 * length cs + 1 < Suc n"
  shows "parse_array (Suc n) cs \<noteq> OutOfFuel"
proof (cases "parse_value n cs")
  case (Parsed v rest1)
  then have first: "length rest1 < length cs" by (rule parse_value_shorter)
  show ?thesis
  proof (cases "skip_ws rest1")
    case Nil
    with Parsed show ?thesis by simp
  next
    case (Cons c r)
    then have after: "length r < length rest1" by (rule skip_ws_Cons)
    with skip_ws_length [of r] first fuel have "2 * length (skip_ws r) + 1 < n" by linarith
    then have "parse_array n (skip_ws r) \<noteq> OutOfFuel" by (rule A)
    with Parsed Cons show ?thesis
      by (cases "parse_array n (skip_ws r)") simp_all
  qed
next
  case Malformed
  then show ?thesis by simp
next
  case OutOfFuel
  moreover from fuel have "parse_value n cs \<noteq> OutOfFuel" by (intro V) simp
  ultimately show ?thesis by simp
qed

lemma object_step_fuel:
  assumes V: "\<And>cs. 2 * length cs < n \<Longrightarrow> parse_value n cs \<noteq> OutOfFuel"
    and O: "\<And>cs. 2 * length cs + 1 < n \<Longrightarrow> parse_object n cs \<noteq> OutOfFuel"
    and fuel: "2 * length cs + 1 < Suc n"
  shows "parse_object (Suc n) cs \<noteq> OutOfFuel"
proof (cases cs)
  case Nil
  then show ?thesis by simp
next
  case outer: (Cons c r)
  show ?thesis
  proof (cases "c = CHR 0x22")
    case False
    with outer show ?thesis by simp
  next
    case quote: True
    show ?thesis
    proof (cases "scan_string r")
      case key: (Parsed k rest0)
      then have l0: "length rest0 < length r" by (rule scan_string_shorter)
      show ?thesis
      proof (cases "skip_ws rest0")
        case Nil
        with outer quote key show ?thesis by simp
      next
        case colon: (Cons c2 r2)
        then have l2: "length r2 < length rest0" by (rule skip_ws_Cons)
        show ?thesis
        proof (cases "c2 = CHR '':''")
          case False
          with outer quote key colon show ?thesis by simp
        next
          case is_colon: True
          from skip_ws_length [of r2] l0 l2 fuel outer
          have "2 * length (skip_ws r2) < n" by simp
          then have no_fuel_v: "parse_value n (skip_ws r2) \<noteq> OutOfFuel" by (rule V)
          show ?thesis
          proof (cases "parse_value n (skip_ws r2)")
            case val: (Parsed v rest2)
            then have "length rest2 < length (skip_ws r2)" by (rule parse_value_shorter)
            with skip_ws_length [of r2] have l3: "length rest2 < length r2" by linarith
            show ?thesis
            proof (cases "skip_ws rest2")
              case Nil
              with outer quote key colon is_colon val show ?thesis by simp
            next
              case sep: (Cons c3 r3)
              then have l4: "length r3 < length rest2" by (rule skip_ws_Cons)
              from skip_ws_length [of r3] l0 l2 l3 l4 fuel outer
              have "2 * length (skip_ws r3) + 1 < n" by simp
              then have "parse_object n (skip_ws r3) \<noteq> OutOfFuel" by (rule O)
              with outer quote key colon is_colon val sep show ?thesis
                by (cases "parse_object n (skip_ws r3)") simp_all
            qed
          next
            case Malformed
            with outer quote key colon is_colon show ?thesis by simp
          next
            case OutOfFuel
            with no_fuel_v show ?thesis by simp
          qed
        qed
      qed
    next
      case Malformed
      with outer quote show ?thesis by simp
    next
      case OutOfFuel
      with scan_string_fuel [of r] show ?thesis by simp
    qed
  qed
qed

lemma parse_fuel:
  "(\<forall>cs. 2 * length cs < n \<longrightarrow> parse_value n cs \<noteq> OutOfFuel)
   \<and> (\<forall>cs. 2 * length cs + 1 < n \<longrightarrow> parse_array n cs \<noteq> OutOfFuel)
   \<and> (\<forall>cs. 2 * length cs + 1 < n \<longrightarrow> parse_object n cs \<noteq> OutOfFuel)"
proof (induction n)
  case 0
  show ?case by simp
next
  case (Suc n)
  then have V: "\<And>cs. 2 * length cs < n \<Longrightarrow> parse_value n cs \<noteq> OutOfFuel"
    and A: "\<And>cs. 2 * length cs + 1 < n \<Longrightarrow> parse_array n cs \<noteq> OutOfFuel"
    and O: "\<And>cs. 2 * length cs + 1 < n \<Longrightarrow> parse_object n cs \<noteq> OutOfFuel"
    by blast+
  have "parse_value (Suc n) cs \<noteq> OutOfFuel" if "2 * length cs < Suc n" for cs
    using A O that by (rule value_step_fuel [where n = n])
  moreover
  have "parse_array (Suc n) cs \<noteq> OutOfFuel" if "2 * length cs + 1 < Suc n" for cs
    using V A that by (rule array_step_fuel [where n = n])
  moreover
  have "parse_object (Suc n) cs \<noteq> OutOfFuel" if "2 * length cs + 1 < Suc n" for cs
    using V O that by (rule object_step_fuel [where n = n])
  ultimately show ?case
    by blast
qed

lemma json_loads_fuel:
  "parse_value (2 * length s + 1) (skip_ws s) \<noteq> OutOfFuel"
proof -
  have "2 * length (skip_ws s) < 2 * length s + 1"
    using skip_ws_length [of s] by simp
  with parse_fuel [of "2 * length s + 1"] show ?thesis
    by blast
qed

section \<open>What every operation sends\<close>

text \<open>
  Every function that sends hands exactly one request to the session, the one built
  by \<^verbatim>\<open>post_request\<close> or \<^verbatim>\<open>get_request\<close>; \<^verbatim>\<open>send_request\<close> answers with the body
  text of a response whose status is below 400 and with the error of
  \<^verbatim>\<open>handle_response_error\<close> otherwise.
\<close>

lemma send_request_sent:
  "snd (send_request loads self send request sent) = sent @ [request]"
  by (simp add: send_request_def split: sum.split)

lemma send_request_answer:
  "send (PasswordlessApiClientImpl.session self) request = Inr response \<Longrightarrow>
   fst (send_request loads self send request sent)
     = (if 400 \<le> status_code response then Inl (handle_response_error loads response)
        else Inr (text' response))"
  by (simp add: send_request_def)

lemma create_alias_sent:
  "snd (create_alias dumps loads self send payload sent)
     = sent @ [post_request self ''/alias'' (dumps payload)]"
  by (simp add: create_alias_def send_request_def Let_def split: sum.split prod.split)

lemma get_aliases_sent:
  "snd (get_aliases schema_loads loads self send uid sent)
     = sent @ [get_request self ''/alias/list'' (Some [''userId'' \<mapsto> uid])]"
  by (simp add: get_aliases_def send_request_def Let_def split: sum.split prod.split)

lemma update_apps_feature_sent:
  "snd (update_apps_feature dumps loads self send payload sent)
     = sent @ [post_request self ''/apps/features'' (dumps payload)]"
  by (simp add: update_apps_feature_def send_request_def Let_def split: sum.split prod.split)

lemma delete_credential_sent:
  "snd (delete_credential dumps loads self send payload sent)
     = sent @ [post_request self ''/credentials/delete'' (dumps payload)]"
  by (simp add: delete_credential_def send_request_def Let_def split: sum.split prod.split)

lemma get_credentials_sent:
  "snd (get_credentials schema_loads loads self send uid sent)
     = sent @ [get_request self ''/credentials/list'' (Some [''userId'' \<mapsto> uid])]"
  by (simp add: get_credentials_def send_request_def Let_def split: sum.split prod.split)

lemma register_token_sent:
  "snd (register_token dumps schema_loads loads self send payload sent)
     = sent @ [post_request self ''/register/token'' (dumps payload)]"
  by (simp add: register_token_def send_request_def Let_def split: sum.split prod.split)

lemma sign_in_sent:
  "snd (sign_in dumps schema_loads loads self send payload sent)
     = sent @ [post_request self ''/signin/verify'' (dumps payload)]"
  by (simp add: sign_in_def send_request_def Let_def split: sum.split prod.split)

lemma get_users_sent:
  "snd (get_users schema_loads loads self send sent)
     = sent @ [get_request self ''/users/list'' None]"
  by (simp add: get_users_def send_request_def Let_def split: sum.split prod.split)

lemma delete_user_sent:
  "snd (delete_user dumps loads self send payload sent)
     = sent @ [post_request self ''/users/delete'' (dumps payload)]"
  by (simp add: delete_user_def send_request_def Let_def split: sum.split prod.split)

lemmas operations_sent =
  create_alias_sent get_aliases_sent update_apps_feature_sent delete_credential_sent
  get_credentials_sent register_token_sent sign_in_sent get_users_sent delete_user_sent

lemma post_request_parts:
  "url (post_request self path body) = api_url (PasswordlessApiClientImpl.options self) @ path"
  "params (post_request self path body) = Map.empty"
  "Request.headers (post_request self path body)
     = [''ApiSecret'' \<mapsto> api_secret (PasswordlessApiClientImpl.options self),
        ''Content-Type'' \<mapsto> ''application/json; charset=UTF-8'']"
  "method' (post_request self path body) = ''POST''"
  by (simp_all add: post_request_def build_url_def build_headers_def Let_def)

lemma get_request_parts:
  "url (get_request self path q) = api_url (PasswordlessApiClientImpl.options self) @ path"
  "params (get_request self path (Some query_params)) = query_params"
  "params (get_request self path None) = Map.empty"
  "Request.headers (get_request self path q)
     = [''ApiSecret'' \<mapsto> api_secret (PasswordlessApiClientImpl.options self)]"
  "method' (get_request self path q) = ''GET''"
  by (simp_all add: get_request_def build_url_def build_headers_def Let_def)

lemma handle_response_error_fallback:
  "(case Response.headers response ''Content-Type'' of
      None \<Rightarrow> True
    | Some content_type \<Rightarrow> \<not> prefix ''application/problem+json'' content_type) \<Longrightarrow>
   handle_response_error loads response
     = PasswordlessError
         \<lparr>type = ''https://docs.passwordless.dev/guide/errors.html'',
          status = status_code response,
          title = ''Unexpected error'',
          detail = text' response\<rparr>"
  by (simp add: handle_response_error_def split: option.splits)

lemma create_alias_answer:
  "send (PasswordlessApiClientImpl.session self) (post_request self ''/alias'' (dumps payload))
     = Inr response \<Longrightarrow>
   fst (create_alias dumps loads self send payload sent)
     = (if 400 \<le> status_code response then Inl (handle_response_error loads response)
        else Inr ())"
  by (simp add: create_alias_def send_request_def Let_def)

lemma update_apps_feature_answer:
  "send (PasswordlessApiClientImpl.session self)
      (post_request self ''/apps/features'' (dumps payload)) = Inr response \<Longrightarrow>
   fst (update_apps_feature dumps loads self send payload sent)
     = (if 400 \<le> status_code response then Inl (handle_response_error loads response)
        else Inr ())"
  by (simp add: update_apps_feature_def send_request_def Let_def)

lemma delete_credential_answer:
  "send (PasswordlessApiClientImpl.session self)
      (post_request self ''/credentials/delete'' (dumps payload)) = Inr response \<Longrightarrow>
   fst (delete_credential dumps loads self send payload sent)
     = (if 400 \<le> status_code response then Inl (handle_response_error loads response)
        else Inr ())"
  by (simp add: delete_credential_def send_request_def Let_def)

lemma delete_user_answer:
  "send (PasswordlessApiClientImpl.session self)
      (post_request self ''/users/delete'' (dumps payload)) = Inr response \<Longrightarrow>
   fst (delete_user dumps loads self send payload sent)
     = (if 400 \<le> status_code response then Inl (handle_response_error loads response)
        else Inr ())"
  by (simp add: delete_user_def send_request_def Let_def)

lemmas no_return_answers =
  create_alias_answer update_apps_feature_answer delete_credential_answer delete_user_answer

lemma load_many_map:
  "\<forall>j\<in>set js. item_load j = Inr (f j) \<Longrightarrow> load_many item_load js = Inr (map f js)"
  by (induction js) simp_all

lemma ListResponseSchema_loads_values:
  assumes "json_loads s = Some (JObject members)"
    and "json_get members ''values'' = Some (JArray items)"
    and "\<forall>j\<in>set items. item_load j = Inr (f j)"
  shows "ListResponseSchema_loads item_load s = Inr \<lparr>values' = map f items\<rparr>"
  using assms(1,2) load_many_map [OF assms(3)]
  by (simp add: ListResponseSchema_loads_def)

lemma get_aliases_answer:
  "send (PasswordlessApiClientImpl.session self)
      (get_request self ''/alias/list'' (Some [''userId'' \<mapsto> uid])) = Inr response \<Longrightarrow>
   status_code response < 400 \<Longrightarrow>
   fst (get_aliases schema_loads loads self send uid sent)
     = (case schema_loads (text' response) of
          Inl e \<Rightarrow> Inl (DeserializationError e)
        | Inr list_response \<Rightarrow> Inr (values' list_response))"
  by (simp add: get_aliases_def send_request_def Let_def split: sum.split)

lemma get_credentials_answer:
  "send (PasswordlessApiClientImpl.session self)
      (get_request self ''/credentials/list'' (Some [''userId'' \<mapsto> uid])) = Inr response \<Longrightarrow>
   status_code response < 400 \<Longrightarrow>
   fst (get_credentials schema_loads loads self send uid sent)
     = (case schema_loads (text' response) of
          Inl e \<Rightarrow> Inl (DeserializationError e)
        | Inr list_response \<Rightarrow> Inr (values' list_response))"
  by (simp add: get_credentials_def send_request_def Let_def split: sum.split)

lemma get_users_answer:
  "send (PasswordlessApiClientImpl.session self)
      (get_request self ''/users/list'' None) = Inr response \<Longrightarrow>
   status_code response < 400 \<Longrightarrow>
   fst (get_users schema_loads loads self send sent)
     = (case schema_loads (text' response) of
          Inl e \<Rightarrow> Inl (DeserializationError e)
        | Inr list_response \<Rightarrow> Inr (values' list_response))"
  by (simp add: get_users_def send_request_def Let_def split: sum.split)

section \<open>Request building\<close>

text \<open>
  C7 (headers). The headers of a request built by \<^verbatim>\<open>get_request\<close> are exactly
  \<^verbatim>\<open>ApiSecret\<close> with the configured secret (no \<^verbatim>\<open>Content-Type\<close>); those of a request
  built by \<^verbatim>\<open>post_request\<close> are \<^verbatim>\<open>ApiSecret\<close> with the configured secret and
  \<^verbatim>\<open>Content-Type: application/json; charset=UTF-8\<close>. Each of the nine operations hands
  the session one request, built by \<^verbatim>\<open>post_request\<close> (the six POST operations) or by
  \<^verbatim>\<open>get_request\<close> (the three GET operations).
\<close>

theorem request_headers:
  "Request.headers (get_request self path query_params)
     = [''ApiSecret'' \<mapsto> api_secret (PasswordlessApiClientImpl.options self)]
   \<and> Request.headers (post_request self path body)
     = [''ApiSecret'' \<mapsto> api_secret (PasswordlessApiClientImpl.options self),
        ''Content-Type'' \<mapsto> ''application/json; charset=UTF-8'']
   \<and> Request.headers (get_request self path query_params) ''Content-Type'' = None
   \<and> method' (get_request self path query_params) = ''GET''
   \<and> method' (post_request self path body) = ''POST''
   \<and> snd (create_alias dumps1 loads self send p1 sent)
     = sent @ [post_request self ''/alias'' (dumps1 p1)]
   \<and> snd (get_aliases list_loads1 loads self send uid sent)
     = sent @ [get_request self ''/alias/list'' (Some [''userId'' \<mapsto> uid])]
   \<and> snd (update_apps_feature dumps2 loads self send p2 sent)
     = sent @ [post_request self ''/apps/features'' (dumps2 p2)]
   \<and> snd (delete_credential dumps3 loads self send p3 sent)
     = sent @ [post_request self ''/credentials/delete'' (dumps3 p3)]
   \<and> snd (get_credentials list_loads2 loads self send uid sent)
     = sent @ [get_request self ''/credentials/list'' (Some [''userId'' \<mapsto> uid])]
   \<and> snd (register_token dumps4 loads4 loads self send p4 sent)
     = sent @ [post_request self ''/register/token'' (dumps4 p4)]
   \<and> snd (sign_in dumps5 loads5 loads self send p5 sent)
     = sent @ [post_request self ''/signin/verify'' (dumps5 p5)]
   \<and> snd (get_users list_loads3 loads self send sent)
     = sent @ [get_request self ''/users/list'' None]
   \<and> snd (delete_user dumps6 loads self send p6 sent)
     = sent @ [post_request self ''/users/delete'' (dumps6 p6)]"
  by (simp add: operations_sent post_request_parts get_request_parts)

text \<open>
  C8 (URLs and query parameters). The request of every operation has the URL
  \<^verbatim>\<open>api_url + path\<close>, the configured base URL followed by the operation's path, with
  nothing added or removed in between. \<^verbatim>\<open>get_aliases\<close> and \<^verbatim>\<open>get_credentials\<close> send the
  one query parameter \<^verbatim>\<open>userId\<close>, set to the given user id; \<^verbatim>\<open>get_users\<close> and the POST
  operations send no query parameter.
\<close>

theorem request_urls:
  "(\<exists>q. snd (create_alias dumps1 loads self send p1 sent) = sent @ [q]
        \<and> url q = api_url (PasswordlessApiClientImpl.options self) @ ''/alias''
        \<and> params q = Map.empty)
   \<and> (\<exists>q. snd (get_aliases list_loads1 loads self send uid sent) = sent @ [q]
        \<and> url q = api_url (PasswordlessApiClientImpl.options self) @ ''/alias/list''
        \<and> params q = [''userId'' \<mapsto> uid])
   \<and> (\<exists>q. snd (update_apps_feature dumps2 loads self send p2 sent) = sent @ [q]
        \<and> url q = api_url (PasswordlessApiClientImpl.options self) @ ''/apps/features''
        \<and> params q = Map.empty)
   \<and> (\<exists>q. snd (delete_credential dumps3 loads self send p3 sent) = sent @ [q]
        \<and> url q = api_url (PasswordlessApiClientImpl.options self) @ ''/credentials/delete''
        \<and> params q = Map.empty)
   \<and> (\<exists>q. snd (get_credentials list_loads2 loads self send uid sent) = sent @ [q]
        \<and> url q = api_url (PasswordlessApiClientImpl.options self) @ ''/credentials/list''
        \<and> params q = [''userId'' \<mapsto> uid])
   \<and> (\<exists>q. snd (register_token dumps4 loads4 loads self send p4 sent) = sent @ [q]
        \<and> url q = api_url (PasswordlessApiClientImpl.options self) @ ''/register/token''
        \<and> params q = Map.empty)
   \<and> (\<exists>q. snd (sign_in dumps5 loads5 loads self send p5 sent) = sent @ [q]
        \<and> url q = api_url (PasswordlessApiClientImpl.options self) @ ''/signin/verify''
        \<and> params q = Map.empty)
   \<and> (\<exists>q. snd (get_users list_loads3 loads self send sent) = sent @ [q]
        \<and> url q = api_url (PasswordlessApiClientImpl.options self) @ ''/users/list''
        \<and> params q = Map.empty)
   \<and> (\<exists>q. snd (delete_user dumps6 loads self send p6 sent) = sent @ [q]
        \<and> url q = api_url (PasswordlessApiClientImpl.options self) @ ''/users/delete''
        \<and> params q = Map.empty)"
  by (simp add: operations_sent post_request_parts get_request_parts)

section \<open>The builder\<close>

text \<open>
  C9 (builder). Given a session, the built client holds that very reference and the
  store of session objects is unchanged; given none, the builder allocates a session:
  the client's reference is the next index of the store (no reference into the old
  store), and the new store holds a default session there. In both cases the client's
  options are the builder's.
\<close>

theorem builder_session:
  "build (fst (PasswordlessApiClientBuilder_init default_session opts (Some given) store))
     = \<lparr>PasswordlessApiClientImpl.options = opts, session = given\<rparr>
   \<and> snd (PasswordlessApiClientBuilder_init default_session opts (Some given) store) = store
   \<and> build (fst (PasswordlessApiClientBuilder_init default_session opts None store))
     = \<lparr>PasswordlessApiClientImpl.options = opts, session = length store\<rparr>
   \<and> snd (PasswordlessApiClientBuilder_init default_session opts None store)
     = store @ [default_session]
   \<and> snd (PasswordlessApiClientBuilder_init default_session opts None store)
       ! PasswordlessApiClientImpl.session
           (build (fst (PasswordlessApiClientBuilder_init default_session opts None store)))
     = default_session"
  by (simp add: build_def PasswordlessApiClientBuilder_init_def
      PasswordlessApiClientImpl_init_def Session_new_def)

section \<open>The default expiry of a RegisterToken\<close>

text \<open>
  C2 (default expiry) says that a \<^verbatim>\<open>RegisterToken\<close> constructed without \<^verbatim>\<open>expires_at\<close>
  expires two minutes after its construction. The code does not do that: such a token
  expires two minutes after the import of \<^verbatim>\<open>models.py\<close>, whenever it is constructed,
  since the constructor has no access to the clock. With the import at time 0, a token
  constructed an hour later (at 3600000000 microseconds) has the expiry 120000000, not
  3720000000.
\<close>

theorem default_expiry_fixed_at_import:
  "RegisterToken.expires_at
     (RegisterToken_init (import_models t_import) u n d a1 a2 a3 a4 a5 a6 None)
     = t_import + timedelta_minutes 2
   \<and> RegisterToken.expires_at
     (RegisterToken_init (import_models 0) ''u1'' ''name'' ''Name''
        None None None None None None None)
     = 120000000
   \<and> RegisterToken.expires_at
     (RegisterToken_init (import_models 0) ''u1'' ''name'' ''Name''
        None None None None None None None)
     \<noteq> 3600000000 + timedelta_minutes 2"
  by (simp add: RegisterToken_init_def import_models_def timedelta_minutes_def)

section \<open>Error normalization\<close>

text \<open>
  C3 (fallback). For a response whose \<^verbatim>\<open>Content-Type\<close> is missing or does not begin
  with \<^verbatim>\<open>application/problem+json\<close>, \<^verbatim>\<open>handle_response_error\<close> raises a
  \<^verbatim>\<open>PasswordlessError\<close> wrapping the synthesized problem details: the documentation URL
  as type, the response's status code, the title \<^verbatim>\<open>Unexpected error\<close>, the body text
  as detail; and this is what \<^verbatim>\<open>send_request\<close> raises for such a response with a
  status of 400 or more. No schema is consulted: the statement holds for every \<open>loads\<close>.
\<close>

theorem fallback_problem_details:
  assumes "case Response.headers response ''Content-Type'' of
             None \<Rightarrow> True
           | Some content_type \<Rightarrow> \<not> prefix ''application/problem+json'' content_type"
  shows "handle_response_error loads response
           = PasswordlessError
               \<lparr>type = ''https://docs.passwordless.dev/guide/errors.html'',
                status = status_code response,
                title = ''Unexpected error'',
                detail = text' response\<rparr>
         \<and> (400 \<le> status_code response \<longrightarrow>
              send (PasswordlessApiClientImpl.session self) request = Inr response \<longrightarrow>
              fst (send_request loads self send request sent)
                = Inl (PasswordlessError
                         \<lparr>type = ''https://docs.passwordless.dev/guide/errors.html'',
                          status = status_code response,
                          title = ''Unexpected error'',
                          detail = text' response\<rparr>))"
  using assms
  by (simp add: handle_response_error_fallback send_request_answer)

text \<open>
  The theorem at the specification's scenario (status 500, \<^verbatim>\<open>text/plain\<close>, body
  \<^verbatim>\<open>internal error\<close>) and at a response without headers.
\<close>

theorem fallback_problem_details_witness:
  "handle_response_error PasswordlessProblemDetailsSchema_loads
     \<lparr>status_code = 500, headers = [''Content-Type'' \<mapsto> ''text/plain''],
      text' = ''internal error''\<rparr>
     = PasswordlessError
         \<lparr>type = ''https://docs.passwordless.dev/guide/errors.html'',
          status = 500, title = ''Unexpected error'', detail = ''internal error''\<rparr>
   \<and> fst (send_request PasswordlessProblemDetailsSchema_loads
            \<lparr>PasswordlessApiClientImpl.options =
               \<lparr>api_url = ''https://v4.passwordless.dev'', api_secret = ''s''\<rparr>,
             session = 0\<rparr>
            (\<lambda>s q. Inr \<lparr>status_code = 500, headers = [''Content-Type'' \<mapsto> ''text/plain''],
                          text' = ''internal error''\<rparr>)
            \<lparr>method' = ''POST'', url = ''https://v4.passwordless.dev/alias'',
             Request.headers = Map.empty, params = Map.empty, data = Some ''{}''\<rparr> [])
     = Inl (PasswordlessError
         \<lparr>type = ''https://docs.passwordless.dev/guide/errors.html'',
          status = 500, title = ''Unexpected error'', detail = ''internal error''\<rparr>)
   \<and> handle_response_error PasswordlessProblemDetailsSchema_loads
     \<lparr>status_code = 502, headers = Map.empty, text' = ''''\<rparr>
     = PasswordlessError
         \<lparr>type = ''https://docs.passwordless.dev/guide/errors.html'',
          status = 502, title = ''Unexpected error'', detail = ''''\<rparr>"
  using fallback_problem_details
          [where response = "\<lparr>status_code = 500,
                   headers = [''Content-Type'' \<mapsto> ''text/plain''],
                   text' = ''internal error''\<rparr>"
             and loads = PasswordlessProblemDetailsSchema_loads
             and self = "\<lparr>PasswordlessApiClientImpl.options =
                   \<lparr>api_url = ''https://v4.passwordless.dev'', api_secret = ''s''\<rparr>,
                   session = 0\<rparr>"
             and send = "\<lambda>s q. Inr \<lparr>status_code = 500,
                   headers = [''Content-Type'' \<mapsto> ''text/plain''],
                   text' = ''internal error''\<rparr>"]
        fallback_problem_details
          [where response = "\<lparr>status_code = 502, headers = Map.empty, text' = ''''\<rparr>"
             and loads = PasswordlessProblemDetailsSchema_loads]
  by simp

text \<open>
  C4 (decoded problem details). For a response whose \<^verbatim>\<open>Content-Type\<close> begins with
  \<^verbatim>\<open>application/problem+json\<close> and whose body the schema decodes,
  \<^verbatim>\<open>handle_response_error\<close> raises a \<^verbatim>\<open>PasswordlessError\<close> wrapping exactly the decoded
  record; and this is what \<^verbatim>\<open>send_request\<close> raises for such a response with a status of
  400 or more.
\<close>

theorem decoded_problem_details:
  assumes "Response.headers response ''Content-Type'' = Some content_type"
    and "prefix ''application/problem+json'' content_type"
    and "loads (text' response) = Inr (Some problem_details)"
  shows "handle_response_error loads response = PasswordlessError problem_details
         \<and> (400 \<le> status_code response \<longrightarrow>
              send (PasswordlessApiClientImpl.session self) request = Inr response \<longrightarrow>
              fst (send_request loads self send request sent)
                = Inl (PasswordlessError problem_details))"
  using assms by (simp add: handle_response_error_def send_request_answer)

text \<open>
  The theorem at the specification's scenario: status 400, the body a problem document
  with the title \<^verbatim>\<open>Bad user\<close>, decoded by the schema of the serialization section.
\<close>

lemma bad_user_body:
  \<open>PasswordlessProblemDetailsSchema_loads
     ''{"type":"...","status":400,"title":"Bad user","detail":"username taken"}''
   = Inr (Some \<lparr>type = ''...'', status = 400, title = ''Bad user'',
                 detail = ''username taken''\<rparr>)\<close>
  by code_simp

theorem decoded_problem_details_witness:
  \<open>handle_response_error PasswordlessProblemDetailsSchema_loads
     \<lparr>status_code = 400, headers = [''Content-Type'' \<mapsto> ''application/problem+json''],
      text' = ''{"type":"...","status":400,"title":"Bad user","detail":"username taken"}''\<rparr>
   = PasswordlessError
       \<lparr>type = ''...'', status = 400, title = ''Bad user'', detail = ''username taken''\<rparr>\<close>
  using decoded_problem_details
          [where response = \<open>\<lparr>status_code = 400,
                   headers = [''Content-Type'' \<mapsto> ''application/problem+json''],
                   text' = ''{"type":"...","status":400,"title":"Bad user","detail":"username taken"}''\<rparr>\<close>
             and content_type = "''application/problem+json''"
             and loads = PasswordlessProblemDetailsSchema_loads
             and problem_details = "\<lparr>type = ''...'', status = 400, title = ''Bad user'',
                   detail = ''username taken''\<rparr>"]
        bad_user_body
  by simp

text \<open>
  C1 (no parse error), as stated, fails: a response of type
  \<^verbatim>\<open>application/problem+json\<close> whose body is not JSON makes \<^verbatim>\<open>loads\<close> raise, and
  \<^verbatim>\<open>handle_response_error\<close> has no handler for it.
\<close>

theorem malformed_problem_json_counterexample:
  "400 \<le> status_code
            \<lparr>status_code = 500,
             headers = [''Content-Type'' \<mapsto> ''application/problem+json''],
             text' = ''not json''\<rparr>
   \<and> handle_response_error PasswordlessProblemDetailsSchema_loads
       \<lparr>status_code = 500,
        headers = [''Content-Type'' \<mapsto> ''application/problem+json''],
        text' = ''not json''\<rparr>
     = DeserializationError JSONDecodeError"
proof -
  have "PasswordlessProblemDetailsSchema_loads ''not json'' = Inl JSONDecodeError"
    by code_simp
  then show ?thesis
    by (simp add: handle_response_error_def)
qed

text \<open>
  C1, amended. \<^verbatim>\<open>handle_response_error\<close> raises a deserialization error exactly when
  the \<^verbatim>\<open>Content-Type\<close> begins with \<^verbatim>\<open>application/problem+json\<close> and \<^verbatim>\<open>loads\<close> fails on the
  body, and the error is the one \<^verbatim>\<open>loads\<close> raised; for every other response, whatever
  its body, it raises a \<^verbatim>\<open>PasswordlessError\<close>.
\<close>

theorem deserialization_error_iff:
  "(handle_response_error loads response = DeserializationError e
      \<longleftrightarrow> (\<exists>content_type.
             Response.headers response ''Content-Type'' = Some content_type
           \<and> prefix ''application/problem+json'' content_type
           \<and> loads (text' response) = Inl e))
   \<and> ((\<exists>problem_details.
          handle_response_error loads response = PasswordlessError problem_details)
      \<longleftrightarrow> \<not> (\<exists>content_type e'.
             Response.headers response ''Content-Type'' = Some content_type
           \<and> prefix ''application/problem+json'' content_type
           \<and> loads (text' response) = Inl e'))"
  by (auto simp: handle_response_error_def split: option.splits sum.splits)

section \<open>Operations without a return value\<close>

text \<open>
  C5 (success only on 2xx), as stated, fails: the client raises for a status of 400 or
  more and for no other. A response 304, which the transport does not follow as a
  redirect, is outside 2xx, and \<^verbatim>\<open>create_alias\<close> returns normally on it, having sent
  its one request.
\<close>

theorem not_modified_counterexample:
  "\<not> (200 \<le> status_code \<lparr>status_code = 304, headers = Map.empty, text' = ''''\<rparr>
       \<and> status_code \<lparr>status_code = 304, headers = Map.empty, text' = ''''\<rparr> < 300)
   \<and> create_alias (\<lambda>payload. ''{}'') PasswordlessProblemDetailsSchema_loads
        \<lparr>PasswordlessApiClientImpl.options =
           \<lparr>api_url = ''https://v4.passwordless.dev'', api_secret = ''s''\<rparr>,
         session = 0\<rparr>
        (\<lambda>s q. Inr \<lparr>status_code = 304, headers = Map.empty, text' = ''''\<rparr>)
        \<lparr>CreateAlias.user_id = ''u1'', aliases = [''a@b.com''], hashing = True\<rparr> []
     = (Inr (),
        [\<lparr>method' = ''POST'', url = ''https://v4.passwordless.dev/alias'',
          Request.headers = [''ApiSecret'' \<mapsto> ''s'',
                             ''Content-Type'' \<mapsto> ''application/json; charset=UTF-8''],
          params = Map.empty, data = Some ''{}''\<rparr>])"
  by (simp add: create_alias_def send_request_def post_request_def build_url_def
      build_headers_def Let_def)

text \<open>
  C5, amended. For each of \<^verbatim>\<open>create_alias\<close>, \<^verbatim>\<open>update_apps_feature\<close>,
  \<^verbatim>\<open>delete_credential\<close> and \<^verbatim>\<open>delete_user\<close>, and for every response of the transport:
  if the status is 400 or more, the operation raises what \<^verbatim>\<open>handle_response_error\<close>
  raises for the response, and does not return; if the status is below 400 (every 2xx
  is), it returns \<^verbatim>\<open>None\<close> and raises nothing.
\<close>

theorem no_return_operations:
  assumes "\<forall>request. send (PasswordlessApiClientImpl.session self) request = Inr response"
  shows "fst (create_alias dumps_alias loads self send alias_payload sent)
           = (if 400 \<le> status_code response
              then Inl (handle_response_error loads response) else Inr ())
       \<and> fst (update_apps_feature dumps_feature loads self send feature_payload sent)
           = (if 400 \<le> status_code response
              then Inl (handle_response_error loads response) else Inr ())
       \<and> fst (delete_credential dumps_credential loads self send credential_payload sent)
           = (if 400 \<le> status_code response
              then Inl (handle_response_error loads response) else Inr ())
       \<and> fst (delete_user dumps_user loads self send user_payload sent)
           = (if 400 \<le> status_code response
              then Inl (handle_response_error loads response) else Inr ())"
  using assms by (simp add: no_return_answers)

text \<open>
  The theorem at the specification's scenario (\<^verbatim>\<open>POST /alias\<close> answered with 204) and
  at a response 500 with a plain text body.
\<close>

theorem no_return_operations_witness:
  "fst (create_alias (\<lambda>payload. ''{}'') PasswordlessProblemDetailsSchema_loads
          \<lparr>PasswordlessApiClientImpl.options =
             \<lparr>api_url = ''https://v4.passwordless.dev'', api_secret = ''s''\<rparr>,
           session = 0\<rparr>
          (\<lambda>s q. Inr \<lparr>status_code = 204, headers = Map.empty, text' = ''''\<rparr>)
          \<lparr>CreateAlias.user_id = ''u1'', aliases = [''a@b.com''], hashing = True\<rparr> [])
     = Inr ()
   \<and> fst (delete_user (\<lambda>payload. ''{}'') PasswordlessProblemDetailsSchema_loads
          \<lparr>PasswordlessApiClientImpl.options =
             \<lparr>api_url = ''https://v4.passwordless.dev'', api_secret = ''s''\<rparr>,
           session = 0\<rparr>
          (\<lambda>s q. Inr \<lparr>status_code = 500,
                        headers = [''Content-Type'' \<mapsto> ''text/plain''],
                        text' = ''internal error''\<rparr>)
          \<lparr>DeleteUser.user_id = ''u1''\<rparr> [])
     = Inl (PasswordlessError
         \<lparr>type = ''https://docs.passwordless.dev/guide/errors.html'',
          status = 500, title = ''Unexpected error'', detail = ''internal error''\<rparr>)"
  using no_return_operations
          [where send = "\<lambda>s q. Inr \<lparr>status_code = 204, headers = Map.empty, text' = ''''\<rparr>"
             and response = "\<lparr>status_code = 204, headers = Map.empty, text' = ''''\<rparr>"
             and dumps_alias = "\<lambda>payload. ''{}''"
             and loads = PasswordlessProblemDetailsSchema_loads
             and self = "\<lparr>PasswordlessApiClientImpl.options =
                   \<lparr>api_url = ''https://v4.passwordless.dev'', api_secret = ''s''\<rparr>,
                   session = 0\<rparr>"
             and alias_payload = "\<lparr>CreateAlias.user_id = ''u1'', aliases = [''a@b.com''],
                   hashing = True\<rparr>"
             and sent = "[]"]
        no_return_operations
          [where send = "\<lambda>s q. Inr \<lparr>status_code = 500,
                        headers = [''Content-Type'' \<mapsto> ''text/plain''],
                        text' = ''internal error''\<rparr>"
             and response = "\<lparr>status_code = 500,
                        headers = [''Content-Type'' \<mapsto> ''text/plain''],
                        text' = ''internal error''\<rparr>"
             and dumps_user = "\<lambda>payload. ''{}''"
             and loads = PasswordlessProblemDetailsSchema_loads
             and self = "\<lparr>PasswordlessApiClientImpl.options =
                   \<lparr>api_url = ''https://v4.passwordless.dev'', api_secret = ''s''\<rparr>,
                   session = 0\<rparr>"
             and user_payload = "\<lparr>DeleteUser.user_id = ''u1''\<rparr>"
             and sent = "[]"]
  by (simp add: handle_response_error_fallback)

text \<open>
  C10 (the body of a 2xx response is ignored). For each of the four operations
  without a return value, a response with a status from 200 to 299 yields \<^verbatim>\<open>None\<close>,
  whatever its body and headers and whatever the schemas are: no schema is applied to
  the body.
\<close>

theorem no_return_ignores_body:
  assumes "\<forall>request. send (PasswordlessApiClientImpl.session self) request = Inr response"
    and "200 \<le> status_code response" and "status_code response < 300"
  shows "fst (create_alias dumps_alias loads self send alias_payload sent) = Inr ()
       \<and> fst (update_apps_feature dumps_feature loads self send feature_payload sent) = Inr ()
       \<and> fst (delete_credential dumps_credential loads self send credential_payload sent) = Inr ()
       \<and> fst (delete_user dumps_user loads self send user_payload sent) = Inr ()"
  using assms by (simp add: no_return_answers)

text \<open>
  The theorem at a response 200 whose body is not JSON and whose \<^verbatim>\<open>Content-Type\<close> is
  \<^verbatim>\<open>application/problem+json\<close>.
\<close>

theorem no_return_ignores_body_witness:
  "fst (delete_user (\<lambda>payload. ''{}'') PasswordlessProblemDetailsSchema_loads
          \<lparr>PasswordlessApiClientImpl.options =
             \<lparr>api_url = ''https://v4.passwordless.dev'', api_secret = ''s''\<rparr>,
           session = 0\<rparr>
          (\<lambda>s q. Inr \<lparr>status_code = 200,
                        headers = [''Content-Type'' \<mapsto> ''application/problem+json''],
                        text' = ''not json''\<rparr>)
          \<lparr>DeleteUser.user_id = ''u1''\<rparr> [])
     = Inr ()"
  using no_return_ignores_body
          [where send = "\<lambda>s q. Inr \<lparr>status_code = 200,
                        headers = [''Content-Type'' \<mapsto> ''application/problem+json''],
                        text' = ''not json''\<rparr>"
             and response = "\<lparr>status_code = 200,
                        headers = [''Content-Type'' \<mapsto> ''application/problem+json''],
                        text' = ''not json''\<rparr>"
             and dumps_user = "\<lambda>payload. ''{}''"
             and loads = PasswordlessProblemDetailsSchema_loads
             and self = "\<lparr>PasswordlessApiClientImpl.options =
                   \<lparr>api_url = ''https://v4.passwordless.dev'', api_secret = ''s''\<rparr>,
                   session = 0\<rparr>"
             and user_payload = "\<lparr>DeleteUser.user_id = ''u1''\<rparr>"
             and sent = "[]"]
  by simp

section \<open>List operations\<close>

text \<open>
  C6 (order of list results). \<^verbatim>\<open>get_aliases\<close>, \<^verbatim>\<open>get_credentials\<close> and \<^verbatim>\<open>get_users\<close>
  return the \<^verbatim>\<open>values\<close> of what the list schema decoded, unchanged. With the list schema
  of the serialization section: for a response with a status below 400 (every 2xx is)
  whose body is an object with the array \<^verbatim>\<open>values\<close>, each element of which the element
  schema decodes, the result is the list of the decoded elements, one for each element
  of the array and in the array's order; for the empty array it is the empty list, and
  nothing is raised.
\<close>

theorem list_operations_keep_order:
  assumes "\<forall>request. send (PasswordlessApiClientImpl.session self) request = Inr response"
    and "status_code response < 400"
    and "json_loads (text' response) = Some (JObject members)"
    and "json_get members ''values'' = Some (JArray items)"
    and "\<forall>j\<in>set items. item_load j = Inr (f j)"
  shows "fst (get_aliases (ListResponseSchema_loads item_load) loads self send uid sent)
           = Inr (map f items)
       \<and> fst (get_credentials (ListResponseSchema_loads item_load) loads self send uid sent)
           = Inr (map f items)
       \<and> fst (get_users (ListResponseSchema_loads item_load) loads self send sent)
           = Inr (map f items)"
  using assms
  by (simp add: get_aliases_answer get_credentials_answer get_users_answer
      ListResponseSchema_loads_values [OF assms(3) assms(4) assms(5)])

text \<open>
  The theorem at the specification's scenario (\<^verbatim>\<open>GET /users/list\<close> answered with
  \<^verbatim>\<open>{"values": []}\<close>) and at a body of two elements, with the element schema that
  keeps the JSON value.
\<close>

lemma empty_values_body:
  \<open>json_loads ''{"values": []}'' = Some (JObject [(''values'', JArray [])])\<close>
  by code_simp

lemma two_values_body:
  \<open>json_loads ''{"values": [{"alias": "b"}, {"alias": "a"}]}''
   = Some (JObject [(''values'',
        JArray [JObject [(''alias'', JString ''b'')], JObject [(''alias'', JString ''a'')]])])\<close>
  by code_simp

theorem list_operations_keep_order_witness:
  \<open>fst (get_users (ListResponseSchema_loads Inr) PasswordlessProblemDetailsSchema_loads
          \<lparr>PasswordlessApiClientImpl.options =
             \<lparr>api_url = ''https://v4.passwordless.dev'', api_secret = ''s''\<rparr>,
           session = 0\<rparr>
          (\<lambda>s q. Inr \<lparr>status_code = 200,
                        headers = [''Content-Type'' \<mapsto> ''application/json''],
                        text' = ''{"values": []}''\<rparr>) [])
     = Inr ([] :: json list)
   \<and> fst (get_aliases (ListResponseSchema_loads Inr) PasswordlessProblemDetailsSchema_loads
          \<lparr>PasswordlessApiClientImpl.options =
             \<lparr>api_url = ''https://v4.passwordless.dev'', api_secret = ''s''\<rparr>,
           session = 0\<rparr>
          (\<lambda>s q. Inr \<lparr>status_code = 200,
                        headers = [''Content-Type'' \<mapsto> ''application/json''],
                        text' = ''{"values": [{"alias": "b"}, {"alias": "a"}]}''\<rparr>)
          ''u1'' [])
     = Inr [JObject [(''alias'', JString ''b'')], JObject [(''alias'', JString ''a'')]]\<close>
  using list_operations_keep_order
          [where send = \<open>\<lambda>s q. Inr \<lparr>status_code = 200,
                        headers = [''Content-Type'' \<mapsto> ''application/json''],
                        text' = ''{"values": []}''\<rparr>\<close>
             and response = \<open>\<lparr>status_code = 200,
                        headers = [''Content-Type'' \<mapsto> ''application/json''],
                        text' = ''{"values": []}''\<rparr>\<close>
             and members = "[(''values'', JArray [])]"
             and items = "[]"
             and item_load = Inr
             and f = "\<lambda>j. j"
             and loads = PasswordlessProblemDetailsSchema_loads
             and self = "\<lparr>PasswordlessApiClientImpl.options =
                   \<lparr>api_url = ''https://v4.passwordless.dev'', api_secret = ''s''\<rparr>,
                   session = 0\<rparr>"
             and sent = "[]"]
        list_operations_keep_order
          [where send = \<open>\<lambda>s q. Inr \<lparr>status_code = 200,
                        headers = [''Content-Type'' \<mapsto> ''application/json''],
                        text' = ''{"values": [{"alias": "b"}, {"alias": "a"}]}''\<rparr>\<close>
             and response = \<open>\<lparr>status_code = 200,
                        headers = [''Content-Type'' \<mapsto> ''application/json''],
                        text' = ''{"values": [{"alias": "b"}, {"alias": "a"}]}''\<rparr>\<close>
             and members = "[(''values'',
                   JArray [JObject [(''alias'', JString ''b'')],
                           JObject [(''alias'', JString ''a'')]])]"
             and items = "[JObject [(''alias'', JString ''b'')],
                           JObject [(''alias'', JString ''a'')]]"
             and item_load = Inr
             and f = "\<lambda>j. j"
             and loads = PasswordlessProblemDetailsSchema_loads
             and self = "\<lparr>PasswordlessApiClientImpl.options =
                   \<lparr>api_url = ''https://v4.passwordless.dev'', api_secret = ''s''\<rparr>,
                   session = 0\<rparr>"
             and uid = "''u1''"
             and sent = "[]"]
        empty_values_body two_values_body
  by (simp add: json_get_def)

end
